theory Spec2Isabelle
  imports Complex_Main
begin

section \<open>The Cognee core engine (cognee/core.py)\<close>

text \<open>
  The class \<open>CogneeCore\<close> is embedded as a record of its runtime fields, and each of
  its coroutines as a function from the state to a result and the new state. Collaborators
  (graph, cache, search engine, server, ...) live in other modules: what they
  answer at each call is an argument of the operation (an environment record), and every
  call that is made is appended to a trace kept in the state, together with the log records
  and the writes to the flag \<open>_running\<close>. A collaborator that raises answers with an
  exception value; \<open>except Exception\<close> handlers of the source are the \<open>Inl\<close>/\<open>Some\<close>
  branches of the model. Floats (gauges, clock readings, intervals) are carried as reals:
  the code only stores, subtracts and passes them on.
\<close>

subsection \<open>Data\<close>

datatype exn = RuntimeError string | Exception string

datatype subsystem =
    KnowledgeGraph | DataProcessor | EmbeddingManager | SearchEngine | Orchestrator
  | PerformanceOptimizer | CacheManager | MetricsCollector | HealthChecker | Api | Server

datatype loop = MetricsCollection | HealthMonitoring | PerformanceOptimization

text \<open>
  An asyncio task is \<open>Pending\<close> from \<open>create_task\<close> until the event loop first runs it,
  \<open>Sleeping d\<close> while suspended in \<open>asyncio.sleep(d)\<close>, \<open>Finished\<close> once its coroutine has
  returned and \<open>Cancelled\<close> once a cancellation has been delivered.
\<close>

datatype task_status = Pending | Sleeping real | Finished | Cancelled

record task =
  task_name :: loop
  status :: task_status
  iterations :: nat

datatype pyval = PNone | PBool bool | PInt int | PStr string

type_synonym pydict = "(string \<times> pyval) list"

record health_status =
  healthy :: bool
  health_detail :: string

record optimization_result =
  optimized :: bool
  optimization_detail :: string

record CogneeMetrics =
  total_nodes :: int
  total_edges :: int
  graph_complexity :: real
  processed_documents :: int
  processing_time :: real
  embeddings_generated :: int
  search_queries :: int
  average_response_time :: real
  cache_hit_rate :: real
  memory_usage :: real
  cpu_usage :: real
  gpu_usage :: real
  provider_connections :: int
  model_integrations :: int
  api_requests :: int

record CogneeConfig =
  dynamic_config :: bool
  collection_interval :: real
  check_interval :: real
  optimization_interval :: real

datatype event =
    LogInfo string
  | LogDebug string
  | LogWarning string
  | LogError string exn
  | SetRunning bool
  | HostOptimization
  | Initialize subsystem
  | CreateTask loop
  | CancelTask loop
  | ServerStart "string option" "int option"
  | ServerStop
  | CacheGet string
  | CacheSet string "pydict list"
  | SemanticSearch string "pydict option" "int option"
  | MetricsRead
  | Collect CogneeMetrics
  | CheckHealth
  | HandleHealthIssue health_status
  | Optimize
  | ApplyPerformanceOptimizations optimization_result

text \<open>
  \<open>attr_start_time\<close> is the instance attribute \<open>_start_time\<close>: \<open>None\<close> while the object
  has no such attribute (what \<open>hasattr\<close> tests in \<open>get_status\<close>).
\<close>

record CogneeCore =
  config :: CogneeConfig
  initialized :: bool
  running :: bool
  metrics :: CogneeMetrics
  background_tasks :: "task list"
  attr_start_time :: "real option"
  trace :: "event list"

definition emit :: "event list \<Rightarrow> CogneeCore \<Rightarrow> CogneeCore" where
  "emit es s = s\<lparr>trace := trace s @ es\<rparr>"

definition zero_metrics :: CogneeMetrics where
  "zero_metrics =
     \<lparr>total_nodes = 0, total_edges = 0, graph_complexity = 0, processed_documents = 0,
      processing_time = 0, embeddings_generated = 0, search_queries = 0,
      average_response_time = 0, cache_hit_rate = 0, memory_usage = 0, cpu_usage = 0,
      gpu_usage = 0, provider_connections = 0, model_integrations = 0, api_requests = 0\<rparr>"

text \<open>\<open>__init__\<close>: both flags false, zero metrics, no task handle, no \<open>_start_time\<close>.\<close>

definition init_core :: "CogneeConfig \<Rightarrow> CogneeCore" where
  "init_core cfg =
     \<lparr>config = cfg, initialized = False, running = False, metrics = zero_metrics,
      background_tasks = [], attr_start_time = None,
      trace = [LogInfo ''Cognee Core initialized'']\<rparr>"

subsection \<open>initialize\<close>

record init_env =
  host_optimization :: "exn + CogneeConfig"
  subsystem_init :: "subsystem \<Rightarrow> exn option"
  clock_start :: real
  clock_end :: real

definition init_order :: "subsystem list" where
  "init_order =
     [KnowledgeGraph, DataProcessor, EmbeddingManager, SearchEngine, Orchestrator,
      PerformanceOptimizer, CacheManager, MetricsCollector, HealthChecker, Api, Server]"

text \<open>
  \<open>_apply_host_optimization\<close>: detect the host, optimise and update the configuration in
  place; any exception is logged as a warning and swallowed.
\<close>

definition apply_host_optimization :: "init_env \<Rightarrow> CogneeCore \<Rightarrow> CogneeCore" where
  "apply_host_optimization env s =
     (case host_optimization env of
        Inr cfg \<Rightarrow>
          emit [HostOptimization, LogInfo ''Applied host-aware optimization''] (s\<lparr>config := cfg\<rparr>)
      | Inl e \<Rightarrow>
          emit [HostOptimization, LogWarning ''Host optimization failed''] s)"

text \<open>The eleven awaited \<open>initialize()\<close> calls, in order; the first that raises ends the run.\<close>

fun init_subsystems ::
  "(subsystem \<Rightarrow> exn option) \<Rightarrow> subsystem list \<Rightarrow> CogneeCore \<Rightarrow> exn option \<times> CogneeCore" where
  "init_subsystems r [] s = (None, s)"
| "init_subsystems r (c # cs) s =
     (case r c of
        Some e \<Rightarrow> (Some e, emit [Initialize c] s)
      | None \<Rightarrow> init_subsystems r cs (emit [Initialize c] s))"

definition new_task :: "loop \<Rightarrow> task" where
  "new_task l = \<lparr>task_name = l, status = Pending, iterations = 0\<rparr>"

text \<open>
  \<open>_start_background_tasks\<close>: three \<open>asyncio.create_task\<close> calls, each handle added to
  \<open>_background_tasks\<close>. The coroutines do not run here: a new task first runs when the
  event loop next gets control.
\<close>

definition start_background_tasks :: "CogneeCore \<Rightarrow> CogneeCore" where
  "start_background_tasks s =
     emit [CreateTask MetricsCollection, CreateTask HealthMonitoring,
           CreateTask PerformanceOptimization, LogInfo ''Background tasks started'']
       (s\<lparr>background_tasks := background_tasks s @
            [new_task MetricsCollection, new_task HealthMonitoring,
             new_task PerformanceOptimization]\<rparr>)"

text \<open>
  \<open>initialize\<close>. The reading \<open>start_time = time.time()\<close> is a local variable, used only
  for the duration in the final log record; no field of the object receives it.
\<close>

definition initialize :: "init_env \<Rightarrow> CogneeCore \<Rightarrow> bool \<times> CogneeCore" where
  "initialize env s =
     (if initialized s then (True, s)
      else
        let s1 = emit [LogInfo ''Initializing Cognee components...''] s;
            start_time = clock_start env;
            s2 = (if dynamic_config (config s1) then apply_host_optimization env s1 else s1)
        in case init_subsystems (subsystem_init env) init_order s2 of
             (Some e, s3) \<Rightarrow> (False, emit [LogError ''Failed to initialize Cognee'' e] s3)
           | (None, s3) \<Rightarrow>
               let s4 = start_background_tasks s3;
                   s5 = s4\<lparr>initialized := True\<rparr>;
                   initialization_time = clock_end env - start_time
               in (True, emit [LogInfo ''Cognee initialized successfully''] s5))"

subsection \<open>start_api and stop_api\<close>

text \<open>\<open>start_api\<close>: the precondition error is raised before the \<open>try\<close>, so it is not logged.\<close>

definition start_api ::
  "exn option \<Rightarrow> string option \<Rightarrow> int option \<Rightarrow> CogneeCore \<Rightarrow> (exn + unit) \<times> CogneeCore" where
  "start_api server_start host port s =
     (if \<not> initialized s then (Inl (RuntimeError ''Cognee not initialized''), s)
      else
        let s1 = emit [SetRunning True, ServerStart host port] (s\<lparr>running := True\<rparr>)
        in case server_start of
             None \<Rightarrow> (Inr (), emit [LogInfo ''Cognee API started''] s1)
           | Some e \<Rightarrow>
               (Inl e, emit [LogError ''Failed to start API'' e, SetRunning False]
                         (s1\<lparr>running := False\<rparr>)))"

text \<open>
  \<open>task.cancel()\<close> followed by \<open>asyncio.gather(..., return_exceptions=True)\<close>: a task that
  is not done receives \<open>CancelledError\<close> at its suspension point (not an \<open>Exception\<close>
  from Python 3.8 on, so the loop's handler does not catch it) and ends cancelled; a task
  that is done stays as it is. The handles stay in the set.
\<close>

fun cancel_status :: "task_status \<Rightarrow> task_status" where
  "cancel_status Pending = Cancelled"
| "cancel_status (Sleeping d) = Cancelled"
| "cancel_status Finished = Finished"
| "cancel_status Cancelled = Cancelled"

definition cancel_task :: "task \<Rightarrow> task" where
  "cancel_task t = t\<lparr>status := cancel_status (status t)\<rparr>"

text \<open>
  \<open>_background_tasks\<close> is a Python set, and \<open>for task in self._background_tasks\<close> visits
  its members in an order the program does not control. The field \<open>background_tasks\<close>
  lists the handles in creation order only to name them by position; the order of a visit
  is an argument. \<open>set_iteration order n\<close> turns any list of positions into a visit of
  all \<open>n\<close> handles, each once: the positions named in \<open>order\<close> first, in that order, then
  the remaining ones.
\<close>

definition set_iteration :: "nat list \<Rightarrow> nat \<Rightarrow> nat list" where
  "set_iteration order n =
     remdups (filter (\<lambda>i. i < n) order) @ filter (\<lambda>i. i \<notin> set order) [0..<n]"

text \<open>
  \<open>stop_api\<close>. The \<open>cancel()\<close> calls are made in the order of the set's iteration;
  every failure inside the \<open>try\<close> is logged and not raised again.
\<close>

definition stop_api :: "exn option \<Rightarrow> nat list \<Rightarrow> CogneeCore \<Rightarrow> CogneeCore" where
  "stop_api server_stop order s =
     (let s1 = emit [SetRunning False] (s\<lparr>running := False\<rparr>);
          s2 = emit (map (\<lambda>i. CancelTask (task_name (background_tasks s1 ! i)))
                       (set_iteration order (length (background_tasks s1)))) s1;
          s3 = s2\<lparr>background_tasks := map cancel_task (background_tasks s2)\<rparr>;
          s4 = emit [ServerStop] s3
      in case server_stop of
           None \<Rightarrow> emit [LogInfo ''Cognee API stopped''] s4
         | Some e \<Rightarrow> emit [LogError ''Failed to stop API'' e] s4)"

subsection \<open>get_status\<close>

record status_report =
  st_initialized :: bool
  st_running :: bool
  st_metrics :: CogneeMetrics
  st_health :: health_status
  st_performance :: string
  st_config :: CogneeConfig
  uptime :: real

record status_env =
  status_health :: "exn + health_status"
  status_performance :: "exn + string"
  status_clock :: real

text \<open>
  \<open>get_status\<close> has no handler: a collaborator that raises ends the call. The uptime is
  \<open>time.time() - self._start_time\<close> when the attribute exists and \<open>0\<close> otherwise.
\<close>

definition get_status :: "status_env \<Rightarrow> CogneeCore \<Rightarrow> exn + status_report" where
  "get_status env s =
     (case status_health env of
        Inl e \<Rightarrow> Inl e
      | Inr h \<Rightarrow>
          (case status_performance env of
             Inl e \<Rightarrow> Inl e
           | Inr p \<Rightarrow>
               Inr \<lparr>st_initialized = initialized s, st_running = running s,
                    st_metrics = metrics s, st_health = h, st_performance = p,
                    st_config = config s,
                    uptime = (case attr_start_time s of
                                Some t0 \<Rightarrow> status_clock env - t0
                              | None \<Rightarrow> 0)\<rparr>))"

subsection \<open>The three background loops\<close>

record metrics_env =
  node_count :: "exn + int"
  edge_count :: "exn + int"
  complexity_score :: "exn + real"
  average_processing_time :: "exn + real"
  total_embeddings :: "exn + int"
  total_queries :: "exn + int"
  search_average_response_time :: "exn + real"
  hit_rate :: "exn + real"
  optimizer_memory_usage :: "exn + real"
  optimizer_cpu_usage :: "exn + real"
  optimizer_gpu_usage :: "exn + real"
  total_requests :: "exn + int"
  collect :: "exn option"

text \<open>
  One assignment \<open>self._metrics.f = await collaborator.g()\<close> of the metrics loop: skipped
  when an earlier call of the iteration has raised, otherwise the field is written unless
  this call raises. Fields written before the failure keep their new values.
\<close>

definition read_into ::
  "exn + 'a \<Rightarrow> ('a \<Rightarrow> CogneeMetrics \<Rightarrow> CogneeMetrics) \<Rightarrow> exn option \<times> CogneeMetrics
     \<Rightarrow> exn option \<times> CogneeMetrics" where
  "read_into r f acc =
     (case acc of
        (Some e, m) \<Rightarrow> (Some e, m)
      | (None, m) \<Rightarrow> (case r of Inl e \<Rightarrow> (Some e, m) | Inr v \<Rightarrow> (None, f v m)))"

text \<open>
  The fourteen assignments in source order. \<open>_get_provider_connections\<close> and
  \<open>_get_model_integrations\<close> return the field they are assigned to.
\<close>

definition update_metrics :: "metrics_env \<Rightarrow> CogneeMetrics \<Rightarrow> exn option \<times> CogneeMetrics" where
  "update_metrics env m0 =
     (let a1 = read_into (node_count env) (\<lambda>v m. m\<lparr>total_nodes := v\<rparr>) (None, m0);
          a2 = read_into (edge_count env) (\<lambda>v m. m\<lparr>total_edges := v\<rparr>) a1;
          a3 = read_into (complexity_score env) (\<lambda>v m. m\<lparr>graph_complexity := v\<rparr>) a2;
          a4 = read_into (average_processing_time env) (\<lambda>v m. m\<lparr>processing_time := v\<rparr>) a3;
          a5 = read_into (total_embeddings env) (\<lambda>v m. m\<lparr>embeddings_generated := v\<rparr>) a4;
          a6 = read_into (total_queries env) (\<lambda>v m. m\<lparr>search_queries := v\<rparr>) a5;
          a7 = read_into (search_average_response_time env)
                 (\<lambda>v m. m\<lparr>average_response_time := v\<rparr>) a6;
          a8 = read_into (hit_rate env) (\<lambda>v m. m\<lparr>cache_hit_rate := v\<rparr>) a7;
          a9 = read_into (optimizer_memory_usage env) (\<lambda>v m. m\<lparr>memory_usage := v\<rparr>) a8;
          a10 = read_into (optimizer_cpu_usage env) (\<lambda>v m. m\<lparr>cpu_usage := v\<rparr>) a9;
          a11 = read_into (optimizer_gpu_usage env) (\<lambda>v m. m\<lparr>gpu_usage := v\<rparr>) a10;
          a12 = read_into (Inr (provider_connections (snd a11)))
                  (\<lambda>v m. m\<lparr>provider_connections := v\<rparr>) a11;
          a13 = read_into (Inr (model_integrations (snd a12)))
                  (\<lambda>v m. m\<lparr>model_integrations := v\<rparr>) a12
      in read_into (total_requests env) (\<lambda>v m. m\<lparr>api_requests := v\<rparr>) a13)"

text \<open>The \<open>try\<close> block of \<open>_collect_metrics_loop\<close> with its handler.\<close>

definition metrics_iteration :: "metrics_env \<Rightarrow> CogneeCore \<Rightarrow> CogneeCore" where
  "metrics_iteration env s =
     (case update_metrics env (metrics s) of
        (Some e, m) \<Rightarrow>
          emit [MetricsRead, LogError ''Metrics collection failed'' e] (s\<lparr>metrics := m\<rparr>)
      | (None, m) \<Rightarrow>
          (case collect env of
             Some e \<Rightarrow>
               emit [MetricsRead, Collect m, LogError ''Metrics collection failed'' e]
                 (s\<lparr>metrics := m\<rparr>)
           | None \<Rightarrow> emit [MetricsRead, Collect m] (s\<lparr>metrics := m\<rparr>)))"

text \<open>The \<open>try\<close> block of \<open>_health_monitoring_loop\<close>; \<open>_handle_health_issue\<close> is \<open>pass\<close>.\<close>

definition health_iteration :: "exn + health_status \<Rightarrow> CogneeCore \<Rightarrow> CogneeCore" where
  "health_iteration check s =
     (case check of
        Inl e \<Rightarrow> emit [CheckHealth, LogError ''Health monitoring failed'' e] s
      | Inr h \<Rightarrow>
          if \<not> healthy h
          then emit [CheckHealth, LogWarning ''Health check failed'', HandleHealthIssue h] s
          else emit [CheckHealth] s)"

text \<open>
  The \<open>try\<close> block of \<open>_performance_optimization_loop\<close>;
  \<open>_apply_performance_optimizations\<close> is \<open>pass\<close>.
\<close>

definition performance_iteration :: "exn + optimization_result \<Rightarrow> CogneeCore \<Rightarrow> CogneeCore" where
  "performance_iteration res s =
     (case res of
        Inl e \<Rightarrow> emit [Optimize, LogError ''Performance optimization failed'' e] s
      | Inr r \<Rightarrow>
          if optimized r
          then emit [Optimize, LogInfo ''Performance optimization applied'',
                     ApplyPerformanceOptimizations r] s
          else emit [Optimize] s)"

record loop_env =
  metrics_sources :: metrics_env
  check_health :: "exn + health_status"
  optimize :: "exn + optimization_result"

fun loop_body :: "loop \<Rightarrow> loop_env \<Rightarrow> CogneeCore \<Rightarrow> CogneeCore" where
  "loop_body MetricsCollection env s = metrics_iteration (metrics_sources env) s"
| "loop_body HealthMonitoring env s = health_iteration (check_health env) s"
| "loop_body PerformanceOptimization env s = performance_iteration (optimize env) s"

fun loop_interval :: "loop \<Rightarrow> CogneeConfig \<Rightarrow> real" where
  "loop_interval MetricsCollection cfg = collection_interval cfg"
| "loop_interval HealthMonitoring cfg = check_interval cfg"
| "loop_interval PerformanceOptimization cfg = optimization_interval cfg"

fun is_done :: "task_status \<Rightarrow> bool" where
  "is_done Pending = False"
| "is_done (Sleeping d) = False"
| "is_done Finished = True"
| "is_done Cancelled = True"

text \<open>
  The event loop runs the \<open>i\<close>-th task handle from its suspension point (its creation, or
  the end of its sleep) to the next one. Control is at the head \<open>while self._running\<close>:
  when the flag is false the coroutine returns; otherwise the body runs, an exception in
  it is caught and logged, and the task suspends in \<open>asyncio.sleep\<close> with the interval
  read from the configuration. A task that is done is never run again.
\<close>

definition resume_task :: "loop_env \<Rightarrow> nat \<Rightarrow> CogneeCore \<Rightarrow> CogneeCore" where
  "resume_task env i s =
     (if i < length (background_tasks s) then
        let t = background_tasks s ! i in
        if is_done (status t) then s
        else if running s then
          let s1 = loop_body (task_name t) env s
          in s1\<lparr>background_tasks := (background_tasks s1)
                  [i := t\<lparr>status := Sleeping (loop_interval (task_name t) (config s1)),
                          iterations := Suc (iterations t)\<rparr>]\<rparr>
        else s\<lparr>background_tasks := (background_tasks s)[i := t\<lparr>status := Finished\<rparr>]\<rparr>
      else s)"

subsection \<open>query_knowledge\<close>

text \<open>Python's \<open>str\<close> of an integer: decimal digits, with a minus sign when negative.\<close>

fun str_nat :: "nat \<Rightarrow> string" where
  "str_nat n =
     (if n < 10 then [''0123456789'' ! n]
      else str_nat (n div 10) @ [''0123456789'' ! (n mod 10)])"

declare str_nat.simps [simp del]

definition str_int :: "int \<Rightarrow> string" where
  "str_int i = (if i < 0 then CHR ''-'' # str_nat (nat (- i)) else str_nat (nat i))"

definition hex2 :: "nat \<Rightarrow> string" where
  "hex2 n = [''0123456789abcdef'' ! (n div 16 mod 16), ''0123456789abcdef'' ! (n mod 16)]"

text \<open>
  Python's \<open>repr\<close> of a string, with a \<open>char\<close> read as the code point of the same number:
  double quotes when the string has a single quote and no double quote, single quotes
  otherwise; the quote and the backslash escaped, tab, newline and return by letter,
  other non-printable code points as \<open>\xhh\<close>.
\<close>

definition repr_char :: "char \<Rightarrow> char \<Rightarrow> string" where
  "repr_char q c =
     (let n = (of_char c :: nat) in
      if c = q \<or> n = 92 then [CHR 0x5C, c]
      else if n = 9 then [CHR 0x5C, CHR ''t'']
      else if n = 10 then [CHR 0x5C, CHR ''n'']
      else if n = 13 then [CHR 0x5C, CHR ''r'']
      else if n < 32 \<or> n = 127 \<or> (128 \<le> n \<and> n \<le> 160) \<or> n = 173
        then CHR 0x5C # CHR ''x'' # hex2 n
      else [c])"

definition repr_str :: "string \<Rightarrow> string" where
  "repr_str s =
     (let q = (if CHR 0x27 \<in> set s \<and> CHR ''\"'' \<notin> set s
               then CHR ''\"'' else CHR 0x27)
      in q # concat (map (repr_char q) s) @ [q])"

fun repr :: "pyval \<Rightarrow> string" where
  "repr PNone = ''None''"
| "repr (PBool b) = (if b then ''True'' else ''False'')"
| "repr (PInt i) = str_int i"
| "repr (PStr s) = repr_str s"

fun join :: "string \<Rightarrow> string list \<Rightarrow> string" where
  "join sep [] = []"
| "join sep [x] = x"
| "join sep (x # y # ys) = x @ sep @ join sep (y # ys)"

text \<open>
  \<open>str\<close> of a dict lists its items in insertion order; the association list is that
  order. \<open>filters\<close> and \<open>limit\<close> are optional arguments: \<open>None\<close> prints as \<open>None\<close>.
\<close>

definition str_dict :: "pydict \<Rightarrow> string" where
  "str_dict d =
     ''{'' @ join '', '' (map (\<lambda>(k, v). repr_str k @ '': '' @ repr v) d) @ ''}''"

definition str_filters :: "pydict option \<Rightarrow> string" where
  "str_filters f = (case f of None \<Rightarrow> ''None'' | Some d \<Rightarrow> str_dict d)"

definition str_limit :: "int option \<Rightarrow> string" where
  "str_limit l = (case l of None \<Rightarrow> ''None'' | Some n \<Rightarrow> str_int n)"

text \<open>
  The key \<open>f"query:{query}:{hash(str(filters))}:{limit}"\<close>. The builtin \<open>hash\<close> on strings
  is a parameter: CPython salts it per process.
\<close>

definition cache_key :: "(string \<Rightarrow> int) \<Rightarrow> string \<Rightarrow> pydict option \<Rightarrow> int option \<Rightarrow> string" where
  "cache_key hash query filters limit =
     ''query:'' @ query @ '':'' @ str_int (hash (str_filters filters)) @ '':'' @ str_limit limit"

record query_env =
  str_hash :: "string \<Rightarrow> int"
  cache_get :: "string \<Rightarrow> exn + pydict list option"
  semantic_search :: "string \<Rightarrow> pydict option \<Rightarrow> int option \<Rightarrow> exn + pydict list"
  cache_set :: "string \<Rightarrow> pydict list \<Rightarrow> exn option"

text \<open>
  \<open>query_knowledge\<close>. The precondition error is raised before the \<open>try\<close>; inside it every
  exception is logged and raised again. \<open>if cached_result:\<close> is a truth test: \<open>None\<close> and
  the empty list both fail it.
\<close>

definition search_and_store ::
  "query_env \<Rightarrow> string \<Rightarrow> string \<Rightarrow> pydict option \<Rightarrow> int option \<Rightarrow> CogneeCore
     \<Rightarrow> (exn + pydict list) \<times> CogneeCore" where
  "search_and_store env key query filters limit s =
     (let s1 = emit [SemanticSearch query filters limit] s in
      case semantic_search env query filters limit of
        Inl e \<Rightarrow> (Inl e, emit [LogError ''Failed to query knowledge'' e] s1)
      | Inr results \<Rightarrow>
          (let s2 = emit [CacheSet key results] s1 in
           case cache_set env key results of
             Some e \<Rightarrow> (Inl e, emit [LogError ''Failed to query knowledge'' e] s2)
           | None \<Rightarrow>
               (Inr results,
                s2\<lparr>metrics := (metrics s2)\<lparr>search_queries := search_queries (metrics s2) + 1\<rparr>\<rparr>)))"

definition query_knowledge ::
  "query_env \<Rightarrow> string \<Rightarrow> pydict option \<Rightarrow> int option \<Rightarrow> CogneeCore
     \<Rightarrow> (exn + pydict list) \<times> CogneeCore" where
  "query_knowledge env query filters limit s =
     (if \<not> initialized s then (Inl (RuntimeError ''Cognee not initialized''), s)
      else
        let key = cache_key (str_hash env) query filters limit;
            s1 = emit [CacheGet key] s
        in case cache_get env key of
             Inl e \<Rightarrow> (Inl e, emit [LogError ''Failed to query knowledge'' e] s1)
           | Inr cached_result \<Rightarrow>
               (case cached_result of
                  None \<Rightarrow> search_and_store env key query filters limit s1
                | Some v \<Rightarrow>
                    if v \<noteq> [] then (Inr v, emit [LogDebug ''Cache hit for query''] s1)
                    else search_and_store env key query filters limit s1))"

text \<open>
  Modelled from the spec: the cache collaborator (\<open>cognee/cache.py\<close>, not among the
  sources), by its contract \<open>get(key) \<rightarrow> value|miss\<close>, \<open>set(key, value)\<close>: an in-memory
  store that answers \<open>get\<close> with what \<open>set\<close> last stored under the key, and never raises.
  \<open>stored\<close> replays the \<open>set\<close> calls of a trace on a store.
\<close>

fun stored :: "event list \<Rightarrow> (string \<rightharpoonup> pydict list) \<Rightarrow> (string \<rightharpoonup> pydict list)" where
  "stored [] m = m"
| "stored (CacheSet k v # es) m = stored es (m(k \<mapsto> v))"
| "stored (e # es) m = stored es m"

definition memory_cache ::
  "(string \<Rightarrow> int) \<Rightarrow> (string \<Rightarrow> pydict option \<Rightarrow> int option \<Rightarrow> exn + pydict list)
     \<Rightarrow> (string \<rightharpoonup> pydict list) \<Rightarrow> query_env" where
  "memory_cache h search m =
     \<lparr>str_hash = h, cache_get = (\<lambda>k. Inr (m k)), semantic_search = search,
      cache_set = (\<lambda>k v. None)\<rparr>"

subsection \<open>Reading a trace\<close>

text \<open>
  The subsystems that \<open>init_subsystems\<close> calls: all of them up to and including the first
  that raises.
\<close>

fun attempted :: "(subsystem \<Rightarrow> exn option) \<Rightarrow> subsystem list \<Rightarrow> subsystem list" where
  "attempted r [] = []"
| "attempted r (c # cs) = (case r c of Some e \<Rightarrow> [c] | None \<Rightarrow> c # attempted r cs)"

text \<open>The subsystem \<open>initialize()\<close> calls recorded in a trace, in order.\<close>

fun startups :: "event list \<Rightarrow> subsystem list" where
  "startups [] = []"
| "startups (Initialize c # es) = c # startups es"
| "startups (e # es) = startups es"

text \<open>The events a call appended to the trace: those after the first \<open>n\<close>.\<close>

definition since :: "CogneeCore \<Rightarrow> CogneeCore \<Rightarrow> event list" where
  "since s s' = drop (length (trace s)) (trace s')"



text \<open>The number that a string of decimal digits denotes.\<close>

definition digits_value :: "string \<Rightarrow> nat" where
  "digits_value cs = foldl (\<lambda>a c. 10 * a + (of_char c - 48)) 0 cs"

subsection \<open>Sample collaborators\<close>

definition sample_config :: CogneeConfig where
  "sample_config =
     \<lparr>dynamic_config = False, collection_interval = 60, check_interval = 30,
      optimization_interval = 300\<rparr>"

definition all_ok :: init_env where
  "all_ok =
     \<lparr>host_optimization = Inr sample_config, subsystem_init = (\<lambda>c. None),
      clock_start = 100, clock_end = 101\<rparr>"

definition cache_down :: init_env where
  "cache_down =
     all_ok\<lparr>subsystem_init :=
       (\<lambda>c. if c = CacheManager then Some (Exception ''connection refused'') else None)\<rparr>"

definition quiet_sources :: metrics_env where
  "quiet_sources =
     \<lparr>node_count = Inr 3, edge_count = Inr 2, complexity_score = Inr 1,
      average_processing_time = Inr 0, total_embeddings = Inr 3, total_queries = Inr 0,
      search_average_response_time = Inr 0, hit_rate = Inr 0,
      optimizer_memory_usage = Inr 0, optimizer_cpu_usage = Inr 0,
      optimizer_gpu_usage = Inr 0, total_requests = Inr 0, collect = None\<rparr>"

definition quiet :: loop_env where
  "quiet =
     \<lparr>metrics_sources = quiet_sources,
      check_health = Inr \<lparr>healthy = True, health_detail = ''ok''\<rparr>,
      optimize = Inr \<lparr>optimized = False, optimization_detail = ''none''\<rparr>\<rparr>"


text \<open>
  A sample string hash for concrete runs, in place of the salted builtin: the polynomial
  hash with multiplier 31, reduced modulo the prime 65521.
\<close>

definition sample_hash :: "string \<Rightarrow> int" where
  "sample_hash s = foldl (\<lambda>h c. (31 * h + of_char c) mod 65521) 0 s"

definition no_results ::
  "string \<Rightarrow> pydict option \<Rightarrow> int option \<Rightarrow> exn + pydict list" where
  "no_results query filters limit = Inr []"

definition one_result ::
  "string \<Rightarrow> pydict option \<Rightarrow> int option \<Rightarrow> exn + pydict list" where
  "one_result query filters limit = Inr [[(''id'', PStr ''n1'')]]"

definition status_ok :: "real \<Rightarrow> status_env" where
  "status_ok now =
     \<lparr>status_health = Inr \<lparr>healthy = True, health_detail = ''ok''\<rparr>,
      status_performance = Inr ''nominal'', status_clock = now\<rparr>"

text \<open>A core on which \<open>initialize\<close> has succeeded, every subsystem starting cleanly.\<close>

definition ready :: CogneeCore where
  "ready = snd (initialize all_ok (init_core sample_config))"

text \<open>The filters \<open>{'a': 1, 'b': 2}\<close> and \<open>{'b': 2, 'a': 1}\<close>.\<close>

definition ab :: pydict where
  "ab = [(''a'', PInt 1), (''b'', PInt 2)]"

definition ba :: pydict where
  "ba = [(''b'', PInt 2), (''a'', PInt 1)]"

text \<open>
  A first query with the filters \<open>ab\<close> on an empty cache, the search returning one item,
  and the cache as that call leaves it.
\<close>

definition asked_once :: CogneeCore where
  "asked_once =
     snd (query_knowledge (memory_cache sample_hash one_result Map.empty)
            ''x'' (Some ab) (Some 10) ready)"

definition cache_once :: "string \<rightharpoonup> pydict list" where
  "cache_once = stored (trace asked_once) Map.empty"

text \<open>
  A first query \<open>query_knowledge("x", {}, 10)\<close> on an empty cache, the search finding
  nothing, and the cache as that call leaves it.
\<close>

definition asked_empty :: CogneeCore where
  "asked_empty =
     snd (query_knowledge (memory_cache sample_hash no_results Map.empty)
            ''x'' (Some []) (Some 10) ready)"

definition cache_empty_result :: "string \<rightharpoonup> pydict list" where
  "cache_empty_result = stored (trace asked_empty) Map.empty"

text \<open>The same core once \<open>start_api\<close> has succeeded, no task having run yet.\<close>

definition serving :: CogneeCore where
  "serving = snd (start_api None None None ready)"

text \<open>
  The event loop runs the three new tasks between \<open>initialize\<close> and \<open>start_api\<close> (the
  caller awaits anything that suspends, such as \<open>asyncio.sleep(0)\<close>), then \<open>start_api\<close>
  succeeds.
\<close>

definition idle_run :: CogneeCore where
  "idle_run = resume_task quiet 2 (resume_task quiet 1 (resume_task quiet 0 ready))"

definition stalled :: CogneeCore where
  "stalled = snd (start_api None None None idle_run)"

text \<open>
  \<open>start_api\<close> first, each loop runs one iteration, then \<open>stop_api\<close> (cancelling the
  health, performance and metrics tasks in that order) and \<open>start_api\<close> again.
\<close>

definition restarted :: CogneeCore where
  "restarted =
     snd (start_api None None None
            (stop_api None [1, 2, 0]
               (resume_task quiet 2 (resume_task quiet 1 (resume_task quiet 0 serving)))))"

section \<open>Properties\<close>

subsection \<open>Auxiliary facts\<close>

lemma emit_fields [simp]:
  "config (emit es s) = config s"
  "initialized (emit es s) = initialized s"
  "running (emit es s) = running s"
  "metrics (emit es s) = metrics s"
  "background_tasks (emit es s) = background_tasks s"
  "attr_start_time (emit es s) = attr_start_time s"
  "trace (emit es s) = trace s @ es"
  by (simp_all add: emit_def)

lemma emit_emit: "emit a (emit b s) = emit (b @ a) s"
  by (simp add: emit_def)

lemma startups_append: "startups (xs @ ys) = startups xs @ startups ys"
  by (induction xs rule: startups.induct) simp_all

lemma startups_Initialize: "startups (map Initialize cs) = cs"
  by (induction cs) simp_all

lemma init_subsystems_emit:
  "snd (init_subsystems r cs s) = emit (map Initialize (attempted r cs)) s"
proof (induction cs arbitrary: s)
  case Nil
  show ?case by (simp add: emit_def)
next
  case (Cons c cs)
  show ?case
  proof (cases "r c")
    case None
    then show ?thesis using Cons [of "emit [Initialize c] s"] by (simp add: emit_emit)
  next
    case (Some e)
    then show ?thesis by simp
  qed
qed

lemma init_subsystems_result:
  "fst (init_subsystems r cs s) = None \<longleftrightarrow> (\<forall>c \<in> set cs. r c = None)"
  by (induction cs arbitrary: s) (auto split: option.splits)

lemma attempted_all: "\<forall>c \<in> set cs. r c = None \<Longrightarrow> attempted r cs = cs"
  by (induction cs) simp_all

lemma all_subsystems: "c \<in> set init_order"
  by (cases c) (simp_all add: init_order_def)

lemma apply_host_optimization_fields [simp]:
  "initialized (apply_host_optimization env s) = initialized s"
  "running (apply_host_optimization env s) = running s"
  "metrics (apply_host_optimization env s) = metrics s"
  "background_tasks (apply_host_optimization env s) = background_tasks s"
  "attr_start_time (apply_host_optimization env s) = attr_start_time s"
  "startups (trace (apply_host_optimization env s)) = startups (trace s)"
  by (simp_all add: apply_host_optimization_def startups_append split: sum.splits)

lemma start_background_tasks_fields [simp]:
  "initialized (start_background_tasks s) = initialized s"
  "running (start_background_tasks s) = running s"
  "metrics (start_background_tasks s) = metrics s"
  "config (start_background_tasks s) = config s"
  "attr_start_time (start_background_tasks s) = attr_start_time s"
  "startups (trace (start_background_tasks s)) = startups (trace s)"
  "background_tasks (start_background_tasks s) = background_tasks s @
     [new_task MetricsCollection, new_task HealthMonitoring, new_task PerformanceOptimization]"
  by (simp_all add: start_background_tasks_def startups_append)

lemma initialize_cases:
  "initialize env s =
     (if initialized s then (True, s)
      else let s2 = (if dynamic_config (config s)
                     then apply_host_optimization env (emit [LogInfo ''Initializing Cognee components...''] s)
                     else emit [LogInfo ''Initializing Cognee components...''] s);
               s3 = emit (map Initialize (attempted (subsystem_init env) init_order)) s2
           in case fst (init_subsystems (subsystem_init env) init_order s2) of
                Some e \<Rightarrow> (False, emit [LogError ''Failed to initialize Cognee'' e] s3)
              | None \<Rightarrow> (True, emit [LogInfo ''Cognee initialized successfully'']
                                 ((start_background_tasks s3)\<lparr>initialized := True\<rparr>)))"
proof -
  have split: "(case p of (x, y) \<Rightarrow> f x y) = f (fst p) (snd p)" for p :: "exn option \<times> CogneeCore"
    and f :: "exn option \<Rightarrow> CogneeCore \<Rightarrow> bool \<times> CogneeCore"
    by (cases p) simp
  show ?thesis
    unfolding initialize_def Let_def split init_subsystems_emit
    by (simp split: option.splits)
qed

lemma initialize_True_initialized:
  "initialize env s = (True, s') \<Longrightarrow> initialized s'"
  by (auto simp: initialize_cases Let_def split: if_splits option.splits)

lemma initialize_startups:
  "\<not> initialized s \<Longrightarrow>
   startups (trace (snd (initialize env s))) =
     startups (trace s) @ attempted (subsystem_init env) init_order"
  by (simp add: initialize_cases Let_def startups_append startups_Initialize split: option.splits)

lemma init_subsystems_ok:
  "\<forall>c \<in> set cs. r c = None \<Longrightarrow> fst (init_subsystems r cs s) = None"
  by (simp add: init_subsystems_result)

lemma initialize_ready: "initialize all_ok (init_core sample_config) = (True, ready)"
  by (simp add: ready_def initialize_cases Let_def all_ok_def init_core_def sample_config_def
      init_subsystems_ok attempted_all)

lemma ready_fields:
  "initialized ready" "\<not> running ready" "attr_start_time ready = None"
  "background_tasks ready =
     [new_task MetricsCollection, new_task HealthMonitoring, new_task PerformanceOptimization]"
  "config ready = sample_config" "metrics ready = zero_metrics"
  by (simp_all add: ready_def initialize_cases Let_def all_ok_def init_core_def sample_config_def
      init_subsystems_ok attempted_all)

lemma initialize_trace_prefix:
  "\<exists>es. trace (snd (initialize env s)) = trace s @ es"
  by (auto simp: initialize_cases Let_def apply_host_optimization_def start_background_tasks_def
      split: option.splits sum.splits)

lemma initialize_since:
  "\<not> initialized s \<Longrightarrow>
   startups (since s (snd (initialize env s))) = attempted (subsystem_init env) init_order"
proof -
  assume a: "\<not> initialized s"
  obtain es where es: "trace (snd (initialize env s)) = trace s @ es"
    using initialize_trace_prefix by blast
  have "startups (trace s) @ startups es = startups (trace s) @ attempted (subsystem_init env) init_order"
    using initialize_startups [OF a, of env] es by (simp add: startups_append)
  then show ?thesis by (simp add: since_def es)
qed

subsection \<open>Lifecycle\<close>

text \<open>
  Claim C6. Once \<open>initialize()\<close> has returned true, a second call returns true at once and
  leaves the whole state as it was: the trace gains no event (no subsystem is initialised
  again, no host optimisation, no task created) and the task handles are the same.
\<close>

theorem initialize_idempotent:
  assumes "initialize env1 s0 = (True, s1)"
  shows "initialize env2 s1 = (True, s1)"
  using initialize_True_initialized [OF assms] by (simp add: initialize_def)

theorem initialize_idempotent_witness:
  "initialize all_ok (init_core sample_config) = (True, ready)
   \<and> initialize cache_down ready = (True, ready)"
  using initialize_idempotent [OF initialize_ready, of cache_down] initialize_ready by simp


lemma initialize_failed:
  assumes "\<not> initialized s" and "subsystem_init env c = Some e"
  shows "fst (initialize env s) = False \<and> \<not> initialized (snd (initialize env s))
         \<and> running (snd (initialize env s)) = running s
         \<and> background_tasks (snd (initialize env s)) = background_tasks s"
proof -
  define s2 where "s2 =
    (if dynamic_config (config s)
     then apply_host_optimization env (emit [LogInfo ''Initializing Cognee components...''] s)
     else emit [LogInfo ''Initializing Cognee components...''] s)"
  have "fst (init_subsystems (subsystem_init env) init_order s2) \<noteq> None"
    using assms(2) all_subsystems [of c] by (auto simp: init_subsystems_result)
  then obtain e' where e': "fst (init_subsystems (subsystem_init env) init_order s2) = Some e'"
    by blast
  have eq: "initialize env s =
    (False, emit [LogError ''Failed to initialize Cognee'' e']
              (emit (map Initialize (attempted (subsystem_init env) init_order)) s2))"
    using assms(1) e' by (simp add: initialize_cases Let_def s2_def [symmetric])
  have s2: "initialized s2 = initialized s" "background_tasks s2 = background_tasks s"
    "running s2 = running s"
    by (simp_all add: s2_def)
  show ?thesis using assms(1) by (simp add: eq s2)
qed

lemma initialize_succeeds:
  assumes "\<not> initialized s" and "\<forall>c. subsystem_init env c = None"
  shows "fst (initialize env s) \<and> initialized (snd (initialize env s))
         \<and> background_tasks (snd (initialize env s)) = background_tasks s @
             [new_task MetricsCollection, new_task HealthMonitoring,
              new_task PerformanceOptimization]"
  using assms by (simp add: initialize_cases Let_def init_subsystems_ok)

text \<open>
  Claim C7. When some subsystem raises during \<open>initialize()\<close> on a core that is not
  initialised, the call returns false, the flag stays false and no task is created; the
  subsystems called are those up to the first that raises. A later call runs the sequence
  again from its first subsystem, and succeeds through all eleven when none raises.
\<close>

theorem initialize_failure_retry:
  assumes "\<not> initialized s" and "subsystem_init env c = Some e"
  shows "fst (initialize env s) = False
    \<and> \<not> initialized (snd (initialize env s))
    \<and> background_tasks (snd (initialize env s)) = background_tasks s
    \<and> startups (since s (snd (initialize env s))) = attempted (subsystem_init env) init_order
    \<and> startups (since (snd (initialize env s)) (snd (initialize env2 (snd (initialize env s)))))
         = attempted (subsystem_init env2) init_order
    \<and> hd (attempted (subsystem_init env2) init_order) = KnowledgeGraph
    \<and> ((\<forall>c. subsystem_init env2 c = None) \<longrightarrow>
          fst (initialize env2 (snd (initialize env s)))
          \<and> attempted (subsystem_init env2) init_order = init_order)"
proof -
  note f = initialize_failed [OF assms, of]
  have n: "\<not> initialized (snd (initialize env s))" using f by simp
  have hd: "hd (attempted (subsystem_init env2) init_order) = KnowledgeGraph"
    by (simp add: init_order_def split: option.splits)
  show ?thesis
    using f initialize_since [OF assms(1), of env] initialize_since [OF n, of env2]
      initialize_succeeds [OF n, of env2] hd
    by (simp add: attempted_all)
qed

theorem initialize_failure_retry_witness:
  "\<not> initialized (init_core sample_config)
   \<and> subsystem_init cache_down CacheManager = Some (Exception ''connection refused'')
   \<and> fst (initialize cache_down (init_core sample_config)) = False
   \<and> \<not> initialized (snd (initialize cache_down (init_core sample_config)))
   \<and> startups (since (init_core sample_config) (snd (initialize cache_down (init_core sample_config))))
       = [KnowledgeGraph, DataProcessor, EmbeddingManager, SearchEngine, Orchestrator,
          PerformanceOptimizer, CacheManager]
   \<and> fst (initialize all_ok (snd (initialize cache_down (init_core sample_config))))
   \<and> startups (since (snd (initialize cache_down (init_core sample_config)))
                  (snd (initialize all_ok (snd (initialize cache_down (init_core sample_config))))))
       = init_order"
proof -
  have a: "\<not> initialized (init_core sample_config)" by (simp add: init_core_def)
  have b: "subsystem_init cache_down CacheManager = Some (Exception ''connection refused'')"
    by (simp add: cache_down_def)
  have c: "\<forall>c. subsystem_init all_ok c = None" by (simp add: all_ok_def)
  have d: "attempted (subsystem_init cache_down) init_order =
       [KnowledgeGraph, DataProcessor, EmbeddingManager, SearchEngine, Orchestrator,
          PerformanceOptimizer, CacheManager]"
    by (simp add: cache_down_def init_order_def)
  show ?thesis
    using initialize_failure_retry [OF a b, of all_ok] a b c d by simp
qed

text \<open>
  Claim C8. \<open>start_api\<close> raises the precondition error, touching nothing, when the core is
  not initialised. Otherwise it sets \<open>running\<close> and then calls the server's \<open>start\<close>; when
  that call raises, the error is logged, \<open>running\<close> is set back to false and the same
  error reaches the caller.
\<close>

theorem start_api_contract:
  "(\<not> initialized s \<longrightarrow>
      start_api server_start host port s = (Inl (RuntimeError ''Cognee not initialized''), s))
   \<and> (initialized s \<longrightarrow>
        (server_start = None \<longrightarrow>
           fst (start_api server_start host port s) = Inr ()
           \<and> running (snd (start_api server_start host port s))
           \<and> since s (snd (start_api server_start host port s)) =
               [SetRunning True, ServerStart host port, LogInfo ''Cognee API started''])
        \<and> (\<forall>e. server_start = Some e \<longrightarrow>
              fst (start_api server_start host port s) = Inl e
              \<and> \<not> running (snd (start_api server_start host port s))
              \<and> since s (snd (start_api server_start host port s)) =
                  [SetRunning True, ServerStart host port, LogError ''Failed to start API'' e,
                   SetRunning False]))"
  by (simp add: start_api_def Let_def since_def)

theorem start_api_contract_witness:
  "\<not> initialized (init_core sample_config)
   \<and> fst (start_api None None None (init_core sample_config)) = Inl (RuntimeError ''Cognee not initialized'')
   \<and> initialized ready
   \<and> running (snd (start_api None None None ready))
   \<and> fst (start_api (Some (Exception ''address in use'')) None (Some 8000) ready)
        = Inl (Exception ''address in use'')
   \<and> \<not> running (snd (start_api (Some (Exception ''address in use'')) None (Some 8000) ready))"
proof -
  have a: "\<not> initialized (init_core sample_config)" by (simp add: init_core_def)
  show ?thesis
    using start_api_contract [of "init_core sample_config" None None None]
      start_api_contract [of ready None None None]
      start_api_contract [of ready "Some (Exception ''address in use'')" None "Some 8000"]
      a ready_fields(1)
    by simp
qed

lemma stop_api_fields:
  "initialized (stop_api r order s) = initialized s"
  "running (stop_api r order s) = False"
  "background_tasks (stop_api r order s) = map cancel_task (background_tasks s)"
  "config (stop_api r order s) = config s"
  "metrics (stop_api r order s) = metrics s"
  "attr_start_time (stop_api r order s) = attr_start_time s"
  by (simp_all add: stop_api_def Let_def split: option.splits)

lemma set_iteration_visits_all:
  "distinct (set_iteration order n)" "set (set_iteration order n) = {..<n}"
  by (auto simp: set_iteration_def)

lemma stop_api_events:
  "take (length (background_tasks s) + 2) (since s (stop_api r order s)) =
     SetRunning False #
     map (\<lambda>i. CancelTask (task_name (background_tasks s ! i)))
       (set_iteration order (length (background_tasks s))) @ [ServerStop]"
proof -
  have len: "length (set_iteration order n) = n" for n
    using set_iteration_visits_all [of order n] distinct_card [of "set_iteration order n"]
    by simp
  show ?thesis
    by (simp add: stop_api_def Let_def since_def len split: option.splits)
qed

lemma cancel_status_done: "is_done (cancel_status st)"
  by (cases st) simp_all

text \<open>
  Claim C10. \<open>stop_api\<close> does not change \<open>initialized\<close>: it clears \<open>running\<close>, cancels
  every task handle (each once, in whatever order the set is iterated), leaves each of
  them done and still in the set, and stops the server. On a core that was initialised, a
  following \<open>initialize()\<close> therefore returns true at once and changes nothing.
\<close>

theorem stop_api_keeps_initialized:
  "initialized (stop_api server_stop order s) = initialized s
   \<and> \<not> running (stop_api server_stop order s)
   \<and> map task_name (background_tasks (stop_api server_stop order s)) =
        map task_name (background_tasks s)
   \<and> (\<forall>t \<in> set (background_tasks (stop_api server_stop order s)). is_done (status t))
   \<and> take (length (background_tasks s) + 2) (since s (stop_api server_stop order s)) =
        SetRunning False #
        map (\<lambda>i. CancelTask (task_name (background_tasks s ! i)))
          (set_iteration order (length (background_tasks s))) @ [ServerStop]
   \<and> distinct (set_iteration order (length (background_tasks s)))
   \<and> set (set_iteration order (length (background_tasks s))) = {..<length (background_tasks s)}
   \<and> (initialized s \<longrightarrow>
        initialize env (stop_api server_stop order s) = (True, stop_api server_stop order s))"
  using stop_api_events [of s server_stop order] set_iteration_visits_all [of order]
  by (simp add: stop_api_fields initialize_def cancel_task_def cancel_status_done comp_def)

theorem stop_api_keeps_initialized_witness:
  "initialized serving
   \<and> initialized (stop_api None [1, 2, 0] serving)
   \<and> \<not> running (stop_api None [1, 2, 0] serving)
   \<and> initialize all_ok (stop_api None [1, 2, 0] serving) = (True, stop_api None [1, 2, 0] serving)
   \<and> map status (background_tasks (stop_api None [1, 2, 0] serving))
       = [Cancelled, Cancelled, Cancelled]
   \<and> take 5 (since serving (stop_api None [1, 2, 0] serving)) =
       [SetRunning False, CancelTask HealthMonitoring, CancelTask PerformanceOptimization,
        CancelTask MetricsCollection, ServerStop]
   \<and> take 5 (since serving (stop_api None [] serving)) =
       [SetRunning False, CancelTask MetricsCollection, CancelTask HealthMonitoring,
        CancelTask PerformanceOptimization, ServerStop]"
proof -
  have i: "initialized serving"
    using ready_fields(1) by (simp add: serving_def start_api_def Let_def)
  have b: "background_tasks serving =
     [new_task MetricsCollection, new_task HealthMonitoring, new_task PerformanceOptimization]"
    using ready_fields by (simp add: serving_def start_api_def Let_def)
  have t: "map status (background_tasks (stop_api None [1, 2, 0] serving))
       = [Cancelled, Cancelled, Cancelled]"
    by (simp add: stop_api_fields b cancel_task_def new_task_def)
  have len: "length (background_tasks serving) = 3" by (simp add: b)
  have o1: "set_iteration [1, 2, 0] 3 = [1, 2, 0]" by code_simp
  have o2: "set_iteration [] 3 = [0, 1, 2]" by code_simp
  note first = stop_api_keeps_initialized [of None "[1, 2, 0]" serving all_ok, unfolded len o1]
  note second = stop_api_keeps_initialized [of None "[]" serving all_ok, unfolded len o2]
  have e1: "take 5 (since serving (stop_api None [1, 2, 0] serving)) =
       [SetRunning False, CancelTask HealthMonitoring, CancelTask PerformanceOptimization,
        CancelTask MetricsCollection, ServerStop]"
    using first by (simp add: b new_task_def)
  have e2: "take 5 (since serving (stop_api None [] serving)) =
       [SetRunning False, CancelTask MetricsCollection, CancelTask HealthMonitoring,
        CancelTask PerformanceOptimization, ServerStop]"
    using second by (simp add: b new_task_def)
  show ?thesis
    using first i t e1 e2 by simp
qed

text \<open>
  No operation of the class assigns \<open>_start_time\<close>, so the uptime reported is 0 in
  every state reached from \<open>__init__\<close>.
\<close>

lemma attr_start_time_kept:
  "attr_start_time (snd (initialize ienv s)) = attr_start_time s"
  "attr_start_time (snd (start_api r host port s)) = attr_start_time s"
  "attr_start_time (stop_api r' order s) = attr_start_time s"
  by (simp_all add: initialize_cases Let_def start_api_def stop_api_fields split: option.splits)

lemma get_status_uptime_zero:
  "attr_start_time s = None \<Longrightarrow> get_status env s = Inr r \<Longrightarrow> uptime r = 0"
  by (auto simp: get_status_def split: sum.splits)

text \<open>
  Claim C3, evaluated on the code. After an \<open>initialize()\<close> that succeeded with the clock
  at 100, \<open>get_status()\<close> with the clock at 160 reports the uptime 0, before and after
  \<open>start_api\<close>: \<open>_start_time\<close> is never assigned.
\<close>

theorem uptime_stays_zero:
  "initialize all_ok (init_core sample_config) = (True, ready)
   \<and> clock_start all_ok = 100
   \<and> map_sum id uptime (get_status (status_ok 160) ready) = Inr 0
   \<and> map_sum id uptime (get_status (status_ok 160) (snd (start_api None None None ready))) = Inr 0"
  using initialize_ready ready_fields
  by (simp add: get_status_def status_ok_def all_ok_def start_api_def Let_def)

subsection \<open>Background loops\<close>

lemma loop_body_fields [simp]:
  "config (loop_body l env s) = config s"
  "initialized (loop_body l env s) = initialized s"
  "running (loop_body l env s) = running s"
  "background_tasks (loop_body l env s) = background_tasks s"
  "attr_start_time (loop_body l env s) = attr_start_time s"
  by (cases l; simp add: metrics_iteration_def health_iteration_def performance_iteration_def
        split: prod.splits option.splits sum.splits)+


lemma resume_task_done:
  "\<forall>t \<in> set (background_tasks s). is_done (status t) \<Longrightarrow> resume_task env i s = s"
  by (simp add: resume_task_def Let_def)


lemma resume_task_exits:
  assumes "i < length (background_tasks s)" and "\<not> is_done (status (background_tasks s ! i))"
    and "\<not> running s"
  shows "resume_task env i s =
     s\<lparr>background_tasks := (background_tasks s)[i := (background_tasks s ! i)\<lparr>status := Finished\<rparr>]\<rparr>"
  using assms by (simp add: resume_task_def Let_def)

lemma resume_task_fields [simp]:
  "config (resume_task env i s) = config s"
  "initialized (resume_task env i s) = initialized s"
  "running (resume_task env i s) = running s"
  "attr_start_time (resume_task env i s) = attr_start_time s"
  "length (background_tasks (resume_task env i s)) = length (background_tasks s)"
  by (simp_all add: resume_task_def Let_def)




text \<open>
  Claim C1, evaluated on the code. The tasks are created by \<open>initialize\<close>, when \<open>running\<close>
  is still false. In the first run the event loop runs them before \<open>start_api\<close>: each
  finds the flag false and returns, so after a successful \<open>start_api\<close> the flag is true,
  the three tasks are finished with no iteration made, and running them does nothing. In
  the second run \<open>stop_api\<close> has cancelled the tasks and \<open>start_api\<close> succeeds again:
  the flag is true and the three tasks stay cancelled.
\<close>

theorem loops_dead_while_running:
  "fst (initialize all_ok (init_core sample_config))
   \<and> fst (start_api None None None idle_run) = Inr ()
   \<and> running stalled
   \<and> map status (background_tasks stalled) = [Finished, Finished, Finished]
   \<and> map iterations (background_tasks stalled) = [0, 0, 0]
   \<and> resume_task quiet 0 stalled = stalled
   \<and> resume_task quiet 1 stalled = stalled
   \<and> resume_task quiet 2 stalled = stalled
   \<and> fst (start_api None None None ready) = Inr ()
   \<and> running restarted
   \<and> map status (background_tasks restarted) = [Cancelled, Cancelled, Cancelled]
   \<and> map iterations (background_tasks restarted) = [1, 1, 1]
   \<and> resume_task quiet 0 restarted = restarted
   \<and> resume_task quiet 1 restarted = restarted
   \<and> resume_task quiet 2 restarted = restarted"
  by code_simp

subsection \<open>Cache keys and queries\<close>

lemma digit_code: "k < 10 \<Longrightarrow> (of_char (''0123456789'' ! k) :: nat) = 48 + k"
proof -
  assume "k < 10"
  then have "k \<in> {0, 1, 2, 3, 4, 5, 6, 7, 8, 9}" by auto
  then show ?thesis by auto
qed

lemma digits_value_str_nat: "digits_value (str_nat n) = n"
proof (induction n rule: str_nat.induct)
  case (1 n)
  show ?case
  proof (cases "n < 10")
    case True
    then show ?thesis
      by (subst str_nat.simps) (simp add: digits_value_def digit_code)
  next
    case False
    then have "digits_value (str_nat (n div 10)) = n div 10" using 1 by simp
    then show ?thesis using False
      by (subst str_nat.simps) (simp add: digits_value_def digit_code)
  qed
qed

lemma str_nat_inj: "str_nat m = str_nat n \<Longrightarrow> m = n"
  using digits_value_str_nat by metis

lemma str_nat_digits: "c \<in> set (str_nat n) \<Longrightarrow> c \<in> set ''0123456789''"
proof (induction n rule: str_nat.induct)
  case (1 n)
  have d: "''0123456789'' ! k \<in> set ''0123456789''" if "k < 10" for k
    using that nth_mem [of k "''0123456789''"] by simp
  show ?case
  proof (cases "n < 10")
    case True
    then show ?thesis using "1.prems" d [of n]
      by (subst (asm) str_nat.simps) simp
  next
    case False
    have "n mod 10 < 10" by simp
    then show ?thesis using "1.prems" "1.IH" False d [of "n mod 10"]
      by (subst (asm) str_nat.simps) auto
  qed
qed

lemma str_nat_no_minus: "str_nat n \<noteq> CHR ''-'' # cs"
proof
  assume a: "str_nat n = CHR ''-'' # cs"
  then have "CHR ''-'' \<in> set (str_nat n)" by simp
  then have "CHR ''-'' \<in> set ''0123456789''" by (rule str_nat_digits)
  then show False by simp
qed

lemma str_int_inj: "str_int i = str_int j \<Longrightarrow> i = j"
proof -
  assume a: "str_int i = str_int j"
  consider "i < 0" "j < 0" | "i < 0" "\<not> j < 0" | "\<not> i < 0" "j < 0" | "\<not> i < 0" "\<not> j < 0"
    by blast
  then show ?thesis
  proof cases
    case 1
    then have "nat (- i) = nat (- j)" using a str_nat_inj by (simp add: str_int_def)
    then show ?thesis using 1 by simp
  next
    case 2
    then have "str_nat (nat j) = CHR ''-'' # str_nat (nat (- i))"
      using a by (simp add: str_int_def)
    then show ?thesis using str_nat_no_minus by blast
  next
    case 3
    then have "str_nat (nat i) = CHR ''-'' # str_nat (nat (- j))"
      using a by (simp add: str_int_def)
    then show ?thesis using str_nat_no_minus by blast
  next
    case 4
    then have "nat i = nat j" using a str_nat_inj by (simp add: str_int_def)
    then show ?thesis using 4 by simp
  qed
qed

lemma query_knowledge_fields [simp]:
  "config (snd (query_knowledge env q f l s)) = config s"
  "initialized (snd (query_knowledge env q f l s)) = initialized s"
  "running (snd (query_knowledge env q f l s)) = running s"
  "background_tasks (snd (query_knowledge env q f l s)) = background_tasks s"
  "attr_start_time (snd (query_knowledge env q f l s)) = attr_start_time s"
  by (simp_all add: query_knowledge_def search_and_store_def Let_def
      split: sum.splits option.splits)

lemma query_knowledge_hit:
  assumes "initialized s" and "cache_get env (cache_key (str_hash env) q f l) = Inr (Some v)"
    and "v \<noteq> []"
  shows "query_knowledge env q f l s =
    (Inr v, emit [CacheGet (cache_key (str_hash env) q f l), LogDebug ''Cache hit for query''] s)"
  using assms by (simp add: query_knowledge_def Let_def emit_emit)

lemma query_knowledge_miss:
  assumes "initialized s" and "cache_get env (cache_key (str_hash env) q f l) = Inr None"
    and "semantic_search env q f l = Inr rs"
    and "cache_set env (cache_key (str_hash env) q f l) rs = None"
  shows "query_knowledge env q f l s =
    (Inr rs,
     (emit [CacheGet (cache_key (str_hash env) q f l), SemanticSearch q f l,
            CacheSet (cache_key (str_hash env) q f l) rs] s)
       \<lparr>metrics := (metrics s)\<lparr>search_queries := search_queries (metrics s) + 1\<rparr>\<rparr>)"
  using assms by (simp add: query_knowledge_def search_and_store_def Let_def emit_def)

lemma query_knowledge_empty_cached:
  assumes "initialized s" and "cache_get env (cache_key (str_hash env) q f l) = Inr (Some [])"
    and "semantic_search env q f l = Inr rs"
    and "cache_set env (cache_key (str_hash env) q f l) rs = None"
  shows "query_knowledge env q f l s =
    (Inr rs,
     (emit [CacheGet (cache_key (str_hash env) q f l), SemanticSearch q f l,
            CacheSet (cache_key (str_hash env) q f l) rs] s)
       \<lparr>metrics := (metrics s)\<lparr>search_queries := search_queries (metrics s) + 1\<rparr>\<rparr>)"
  using assms by (simp add: query_knowledge_def search_and_store_def Let_def emit_def)

lemma str_filters_samples:
  "str_filters (Some []) = ''{}''"
  "str_filters (Some ab) = [CHR ''{'', CHR 0x27, CHR ''a'', CHR 0x27, CHR '':'', CHR '' '',
     CHR ''1'', CHR '','', CHR '' '', CHR 0x27, CHR ''b'', CHR 0x27, CHR '':'', CHR '' '',
     CHR ''2'', CHR ''}'']"
  "str_filters (Some ba) = [CHR ''{'', CHR 0x27, CHR ''b'', CHR 0x27, CHR '':'', CHR '' '',
     CHR ''2'', CHR '','', CHR '' '', CHR 0x27, CHR ''a'', CHR 0x27, CHR '':'', CHR '' '',
     CHR ''1'', CHR ''}'']"
  by (simp_all add: str_filters_def str_dict_def ab_def ba_def repr_str_def repr_char_def
      str_int_def str_nat.simps Let_def)

lemma sample_hash_samples:
  "sample_hash (str_filters (Some [])) = 3938"
  "sample_hash (str_filters (Some ab)) = 28183"
  "sample_hash (str_filters (Some ba)) = 49215"
  by (simp_all add: str_filters_samples sample_hash_def)

lemma cache_key_samples:
  "cache_key sample_hash ''x'' (Some []) (Some 10) = ''query:x:3938:10''"
  "cache_key sample_hash ''x'' (Some ab) (Some 10) = ''query:x:28183:10''"
  "cache_key sample_hash ''x'' (Some ba) (Some 10) = ''query:x:49215:10''"
  by (simp_all add: cache_key_def sample_hash_samples str_limit_def str_int_def str_nat.simps)

lemma stored_append: "stored (xs @ ys) m = stored ys (stored xs m)"
proof (induction xs arbitrary: m)
  case Nil
  show ?case by simp
next
  case (Cons x xs)
  show ?case by (cases x) (simp_all add: Cons.IH fun_upd_def)
qed

lemma stored_ready: "stored (trace ready) m = m"
  by (simp add: ready_def initialize_cases Let_def all_ok_def init_core_def sample_config_def
      init_subsystems_ok attempted_all init_order_def start_background_tasks_def)

lemma asked_once_eq:
  "query_knowledge (memory_cache sample_hash one_result Map.empty) ''x'' (Some ab) (Some 10) ready =
     (Inr [[(''id'', PStr ''n1'')]],
      (emit [CacheGet ''query:x:28183:10'', SemanticSearch ''x'' (Some ab) (Some 10),
             CacheSet ''query:x:28183:10'' [[(''id'', PStr ''n1'')]]] ready)
        \<lparr>metrics := (metrics ready)\<lparr>search_queries := search_queries (metrics ready) + 1\<rparr>\<rparr>)"
  using query_knowledge_miss [of ready "memory_cache sample_hash one_result Map.empty"
      "''x''" "Some ab" "Some 10" "[[(''id'', PStr ''n1'')]]"] ready_fields(1)
  by (simp add: memory_cache_def cache_key_samples one_result_def)

lemma asked_once_fields:
  "initialized asked_once"
  "search_queries (metrics asked_once) = 1"
  "since ready asked_once =
     [CacheGet ''query:x:28183:10'', SemanticSearch ''x'' (Some ab) (Some 10),
      CacheSet ''query:x:28183:10'' [[(''id'', PStr ''n1'')]]]"
  "cache_once = [''query:x:28183:10'' \<mapsto> [[(''id'', PStr ''n1'')]]]"
  using ready_fields
  by (simp_all add: asked_once_def cache_once_def asked_once_eq since_def stored_append
      stored_ready zero_metrics_def)

lemma asked_empty_eq:
  "query_knowledge (memory_cache sample_hash no_results Map.empty) ''x'' (Some []) (Some 10) ready =
     (Inr [],
      (emit [CacheGet ''query:x:3938:10'', SemanticSearch ''x'' (Some []) (Some 10),
             CacheSet ''query:x:3938:10'' []] ready)
        \<lparr>metrics := (metrics ready)\<lparr>search_queries := search_queries (metrics ready) + 1\<rparr>\<rparr>)"
  using query_knowledge_miss [of ready "memory_cache sample_hash no_results Map.empty"
      "''x''" "Some []" "Some 10" "[]"] ready_fields(1)
  by (simp add: memory_cache_def cache_key_samples no_results_def)

lemma asked_empty_fields:
  "initialized asked_empty"
  "cache_empty_result = [''query:x:3938:10'' \<mapsto> []]"
  using ready_fields
  by (simp_all add: asked_empty_def cache_empty_result_def asked_empty_eq stored_append
      stored_ready)

text \<open>
  The filters \<open>{'a': 1, 'b': 2}\<close> and \<open>{'b': 2, 'a': 1}\<close> hold the same pairs, yet
  their keys differ under the sample hash, and with the cache filled by a query with the
  first, the same query with the first is served from the cache while the query with the
  second runs the search.
\<close>

theorem cache_key_order_counterexample:
  "set ab = set ba
   \<and> cache_key sample_hash ''x'' (Some ab) (Some 10) \<noteq> cache_key sample_hash ''x'' (Some ba) (Some 10)
   \<and> SemanticSearch ''x'' (Some ab) (Some 10) \<notin>
       set (since asked_once
             (snd (query_knowledge (memory_cache sample_hash one_result cache_once)
                     ''x'' (Some ab) (Some 10) asked_once)))
   \<and> SemanticSearch ''x'' (Some ba) (Some 10) \<in>
       set (since asked_once
             (snd (query_knowledge (memory_cache sample_hash one_result cache_once)
                     ''x'' (Some ba) (Some 10) asked_once)))"
proof -
  have hit: "query_knowledge (memory_cache sample_hash one_result cache_once)
      ''x'' (Some ab) (Some 10) asked_once =
      (Inr [[(''id'', PStr ''n1'')]],
       emit [CacheGet ''query:x:28183:10'', LogDebug ''Cache hit for query''] asked_once)"
    using query_knowledge_hit [of asked_once "memory_cache sample_hash one_result cache_once"
        "''x''" "Some ab" "Some 10" "[[(''id'', PStr ''n1'')]]"] asked_once_fields(1)
    by (simp add: memory_cache_def cache_key_samples asked_once_fields(4))
  have miss: "query_knowledge (memory_cache sample_hash one_result cache_once)
      ''x'' (Some ba) (Some 10) asked_once =
      (Inr [[(''id'', PStr ''n1'')]],
       (emit [CacheGet ''query:x:49215:10'', SemanticSearch ''x'' (Some ba) (Some 10),
              CacheSet ''query:x:49215:10'' [[(''id'', PStr ''n1'')]]] asked_once)
         \<lparr>metrics := (metrics asked_once)
            \<lparr>search_queries := search_queries (metrics asked_once) + 1\<rparr>\<rparr>)"
    using query_knowledge_miss [of asked_once "memory_cache sample_hash one_result cache_once"
        "''x''" "Some ba" "Some 10" "[[(''id'', PStr ''n1'')]]"] asked_once_fields(1)
    by (simp add: memory_cache_def cache_key_samples asked_once_fields(4) one_result_def)
  have s: "set ab = set ba" by (auto simp: ab_def ba_def)
  show ?thesis
    by (simp add: s hit miss cache_key_samples since_def)
qed

text \<open>
  Claim C2, amended. For every query string and limit, two filter mappings get the same
  cache key exactly when the hash of their \<open>str\<close> renderings is the same. The rendering
  lists the pairs in insertion order: mappings with the same pairs in the same order share
  the key, the same pairs in another order share it only when the hash collides.
\<close>

theorem cache_key_follows_hash:
  "cache_key h query f1 limit = cache_key h query f2 limit
     \<longleftrightarrow> h (str_filters f1) = h (str_filters f2)"
  using str_int_inj by (auto simp: cache_key_def)

theorem cache_key_follows_hash_witness:
  "sample_hash (str_filters (Some ab)) \<noteq> sample_hash (str_filters (Some ba))
   \<and> cache_key sample_hash ''x'' (Some ab) (Some 10) \<noteq> cache_key sample_hash ''x'' (Some ba) (Some 10)
   \<and> cache_key sample_hash ''x'' (Some ab) (Some 10) = cache_key sample_hash ''x'' (Some ab) (Some 10)"
  using cache_key_follows_hash [of sample_hash "''x''" "Some ab" "Some 10" "Some ba"]
  by (simp add: sample_hash_samples)

text \<open>
  A query answered from the cache returns normally and leaves the counter at the value 1
  that the first query gave it.
\<close>

theorem cache_hit_counter_counterexample:
  "fst (query_knowledge (memory_cache sample_hash one_result cache_once)
          ''x'' (Some ab) (Some 10) asked_once) = Inr [[(''id'', PStr ''n1'')]]
   \<and> search_queries (metrics (snd (query_knowledge (memory_cache sample_hash one_result cache_once)
          ''x'' (Some ab) (Some 10) asked_once))) = search_queries (metrics asked_once)
   \<and> search_queries (metrics asked_once) = 1"
proof -
  have hit: "query_knowledge (memory_cache sample_hash one_result cache_once)
      ''x'' (Some ab) (Some 10) asked_once =
      (Inr [[(''id'', PStr ''n1'')]],
       emit [CacheGet ''query:x:28183:10'', LogDebug ''Cache hit for query''] asked_once)"
    using query_knowledge_hit [of asked_once "memory_cache sample_hash one_result cache_once"
        "''x''" "Some ab" "Some 10" "[[(''id'', PStr ''n1'')]]"] asked_once_fields(1)
    by (simp add: memory_cache_def cache_key_samples asked_once_fields(4))
  show ?thesis by (simp add: hit asked_once_fields(2))
qed

text \<open>
  Claim C4, amended. A call of \<open>query_knowledge\<close> that returns normally adds one to the
  search-query counter when it ran the search; when it did not, the value returned is the
  cached one and the counter is unchanged.
\<close>

theorem search_counter_counts_searches:
  assumes "query_knowledge env q f l s = (Inr v, s')"
  shows "(SemanticSearch q f l \<in> set (since s s') \<longrightarrow>
            search_queries (metrics s') = search_queries (metrics s) + 1)
       \<and> (SemanticSearch q f l \<notin> set (since s s') \<longrightarrow>
            search_queries (metrics s') = search_queries (metrics s)
            \<and> cache_get env (cache_key (str_hash env) q f l) = Inr (Some v))"
  using assms
  by (auto simp: query_knowledge_def search_and_store_def Let_def since_def
      split: if_splits sum.splits option.splits)

theorem search_counter_counts_searches_witness:
  "query_knowledge (memory_cache sample_hash one_result Map.empty) ''x'' (Some ab) (Some 10) ready
     = (Inr [[(''id'', PStr ''n1'')]], asked_once)
   \<and> SemanticSearch ''x'' (Some ab) (Some 10) \<in> set (since ready asked_once)
   \<and> search_queries (metrics asked_once) = search_queries (metrics ready) + 1"
proof -
  have a: "query_knowledge (memory_cache sample_hash one_result Map.empty) ''x'' (Some ab) (Some 10) ready
     = (Inr [[(''id'', PStr ''n1'')]], asked_once)"
    by (simp add: asked_once_def asked_once_eq)
  have b: "SemanticSearch ''x'' (Some ab) (Some 10) \<in> set (since ready asked_once)"
    by (simp add: asked_once_fields(3))
  show ?thesis using search_counter_counts_searches [OF a] a b by simp
qed

text \<open>
  Claim C5, evaluated on the code. \<open>query_knowledge("x", {}, 10)\<close> on an empty cache, the
  search finding nothing, writes the empty list under the key. The same call made again,
  with the cache now holding that value for the key, does not return it directly: it runs
  the search and writes the cache once more.
\<close>

theorem empty_result_never_served_from_cache:
  "fst (query_knowledge (memory_cache sample_hash no_results Map.empty)
          ''x'' (Some []) (Some 10) ready) = Inr []
   \<and> cache_key sample_hash ''x'' (Some []) (Some 10) = ''query:x:3938:10''
   \<and> cache_empty_result ''query:x:3938:10'' = Some []
   \<and> since asked_empty
        (snd (query_knowledge (memory_cache sample_hash no_results cache_empty_result)
                ''x'' (Some []) (Some 10) asked_empty))
      = [CacheGet ''query:x:3938:10'', SemanticSearch ''x'' (Some []) (Some 10),
         CacheSet ''query:x:3938:10'' []]"
proof -
  have again: "query_knowledge (memory_cache sample_hash no_results cache_empty_result)
      ''x'' (Some []) (Some 10) asked_empty =
      (Inr [],
       (emit [CacheGet ''query:x:3938:10'', SemanticSearch ''x'' (Some []) (Some 10),
              CacheSet ''query:x:3938:10'' []] asked_empty)
         \<lparr>metrics := (metrics asked_empty)
            \<lparr>search_queries := search_queries (metrics asked_empty) + 1\<rparr>\<rparr>)"
    using query_knowledge_empty_cached [of asked_empty
        "memory_cache sample_hash no_results cache_empty_result"
        "''x''" "Some []" "Some 10" "[]"] asked_empty_fields(1)
    by (simp add: memory_cache_def cache_key_samples asked_empty_fields(2) no_results_def)
  have held: "cache_empty_result ''query:x:3938:10'' = Some []"
    by (simp add: asked_empty_fields(2))
  show ?thesis
    by (simp add: again asked_empty_eq cache_key_samples held since_def)
qed

end
